theory Spec2Isabelle
  imports Complex_Main
begin

section \<open>Tick schedule and tick rounding\<close>

text \<open>
  Prices are Python floats in the source. They are modelled as exact rationals
  (\<^typ>\<open>rat\<close>): every comparison, division and product below is the exact one, so the
  development speaks about the arithmetic the source writes down, not about the binary
  rounding of IEEE doubles. Integer results (\<open>int(...)\<close>, \<open>math.floor\<close>,
  \<open>math.ceil\<close>) are \<^typ>\<open>int\<close>.
\<close>


text \<open>\<open>Trading_Signal_System_S1.get_tick_unit\<close>: the same table, a second copy.\<close>

definition get_tick_unit :: "rat \<Rightarrow> int" where
  "get_tick_unit price =
     (if price < 2000 then 1
      else if price < 5000 then 5
      else if price < 20000 then 10
      else if price < 50000 then 50
      else if price < 200000 then 100
      else if price < 500000 then 500
      else 1000)"




text \<open>
  \<open>Trading_Signal_System_S1.floor_tick\<close>:
  \<^verbatim>\<open>delta = get_tick_unit(price); return math.floor(price / delta) * delta\<close>.
\<close>

definition floor_tick :: "rat \<Rightarrow> int" where
  "floor_tick price = (let delta = get_tick_unit price in \<lfloor>price / of_int delta\<rfloor> * delta)"

text \<open>
  Python's \<open>x // d\<close> and \<open>x % d\<close> on a float \<open>x\<close> and a positive integer \<open>d\<close>:
  the floored quotient (as a float, here a rational with an integer value) and the
  remainder \<open>x - (x // d) * d\<close>.
\<close>

definition py_floordiv :: "rat \<Rightarrow> int \<Rightarrow> rat" where
  "py_floordiv x d = of_int \<lfloor>x / of_int d\<rfloor>"

definition py_mod :: "rat \<Rightarrow> int \<Rightarrow> rat" where
  "py_mod x d = x - py_floordiv x d * of_int d"

text \<open>
  \<open>Trading_Signal_System_S1.get_nearest_tick_price\<close> (named with the suffix \<open>_tss\<close>;
  the monitor has a function of the same name): an exact on-tick price is moved one
  tick up, any other price goes to the tick above it.
\<close>

definition get_nearest_tick_price_tss :: "rat \<Rightarrow> rat" where
  "get_nearest_tick_price_tss price =
     (let tick_unit = get_tick_unit price
      in if py_mod price tick_unit = 0 then price + of_int tick_unit
         else let lower_tick = py_floordiv price tick_unit * of_int tick_unit;
                  upper_tick = lower_tick + of_int tick_unit
              in upper_tick)"


text \<open>
  \<open>calculate_buy_line_2\<close> and \<open>calculate_buy_line_3\<close> of the signal system, with
  \<open>BUY_LEVEL_GAP = 10.0\<close>: the previous line less 10 percent, rounded by the signal
  system's \<open>get_nearest_tick_price\<close>.
  \<^verbatim>\<open>
  if buy1 is None: return None
  base_price = buy1 * (1 - BUY_LEVEL_GAP / 100)
  return get_nearest_tick_price(base_price)
  \<close>
\<close>

definition BUY_LEVEL_GAP :: rat where
  "BUY_LEVEL_GAP = 10"


definition calculate_buy_line_3 :: "rat option \<Rightarrow> rat option" where
  "calculate_buy_line_3 buy2 =
     (case buy2 of
        None \<Rightarrow> None
      | Some b \<Rightarrow> (let base_price = b * (1 - BUY_LEVEL_GAP / 100)
                  in Some (get_nearest_tick_price_tss base_price)))"

section \<open>Contact-price solver\<close>






section \<open>The two 19-close sums and the sell lines of \<open>analyze_stock\<close>\<close>

text \<open>
  \<open>calculate_ma\<close>: \<^verbatim>\<open>if len(df) < period: return None\<close>, else the mean of the last
  \<open>period\<close> closes. The price frame is modelled by its column of closes, oldest first.
  The only caller passes \<open>period = 20\<close>.
\<close>

definition calculate_ma :: "rat list \<Rightarrow> nat \<Rightarrow> rat option" where
  "calculate_ma closes period =
     (if length closes < period then None
      else Some (sum_list (drop (length closes - period) closes) / of_nat period))"

record s19_sums =
  S19_today :: rat
  S19_next :: rat

text \<open>
  The part of \<open>analyze_stock\<close> that computes the two sums (the source's lines 457 to 505):
  \<^verbatim>\<open>
  if df_chart.empty: return None
  if len(df_chart) < 20: return None
  ma20_today = calculate_ma(df_chart, 20)
  if ma20_today is None: return None
  S20_today = ma20_today * 20
  Close_D_20 = df_chart.iloc[-20]["close"]
  S19_today = S20_today - Close_D_20
  Close_D_19 = df_chart.iloc[-20]["close"]
  S19_next = S20_today - Close_D_19
  \<close>
  With at least 20 rows, \<open>iloc[-20]\<close> is the row at index \<open>len - 20\<close>.
\<close>

definition analyze_stock_sums :: "rat list \<Rightarrow> s19_sums option" where
  "analyze_stock_sums closes =
     (if closes = [] then None
      else if length closes < 20 then None
      else case calculate_ma closes 20 of
             None \<Rightarrow> None
           | Some ma20_today \<Rightarrow>
               (let S20_today = ma20_today * 20;
                    Close_D_20 = closes ! (length closes - 20);
                    S19_today = S20_today - Close_D_20;
                    Close_D_19 = closes ! (length closes - 20);
                    S19_next = S20_today - Close_D_19
                in Some \<lparr>S19_today = S19_today, S19_next = S19_next\<rparr>))"

text \<open>
  The sell lines as \<open>analyze_stock\<close> computes them for its exit checks (lines 611 to 624),
  with \<open>SELL_LEVELS = [3.0, 5.0, 7.0]\<close>:
  \<^verbatim>\<open>
  if buy_status in [BOUGHT_1, BOUGHT_2, BOUGHT_3] and avg_price:
      if avg_price > 0:
          sell1 = avg_price * (1 + SELL_LEVELS[0] / 100)
          sell2 = avg_price * (1 + SELL_LEVELS[1] / 100)
          sell3 = avg_price * (1 + SELL_LEVELS[2] / 100)
      else:
          sell1 = sell2 = sell3 = 0
  \<close>
  Otherwise the three lines stay \<open>None\<close>. The average price is taken as a number or
  \<open>None\<close>; \<open>and avg_price\<close> is false for \<open>None\<close> and for zero.
\<close>

definition SELL_LEVELS :: "rat list" where
  "SELL_LEVELS = [3, 5, 7]"

definition analyze_stock_sell_lines :: "string \<Rightarrow> rat option \<Rightarrow> (rat \<times> rat \<times> rat) option" where
  "analyze_stock_sell_lines buy_status avg_price =
     (case avg_price of
        None \<Rightarrow> None
      | Some a \<Rightarrow>
          if buy_status \<in> set [''BOUGHT_1'', ''BOUGHT_2'', ''BOUGHT_3''] \<and> a \<noteq> 0 then
            (if a > 0 then
               Some (a * (1 + SELL_LEVELS ! 0 / 100),
                     a * (1 + SELL_LEVELS ! 1 / 100),
                     a * (1 + SELL_LEVELS ! 2 / 100))
             else Some (0, 0, 0))
          else None)"

text \<open>
  \<open>calculate_sell_line_1\<close>, \<open>_2\<close>, \<open>_3\<close>: the helpers that round the sell line down to
  its tick. The constants \<open>SELL_LEVEL_1_GAP\<close>, \<open>SELL_LEVEL_2_GAP\<close>, \<open>SELL_LEVEL_3_GAP\<close>
  they read are not defined in the source files, so each is a parameter here.
  \<^verbatim>\<open>
  if avg_buy_price is None: return None
  target_price = avg_buy_price * (1 + SELL_LEVEL_1_GAP / 100)
  return floor_tick(target_price)
  \<close>
\<close>

definition calculate_sell_line_1 :: "rat \<Rightarrow> rat option \<Rightarrow> int option" where
  "calculate_sell_line_1 SELL_LEVEL_1_GAP avg_buy_price =
     (case avg_buy_price of
        None \<Rightarrow> None
      | Some a \<Rightarrow> Some (floor_tick (a * (1 + SELL_LEVEL_1_GAP / 100))))"

definition calculate_sell_line_2 :: "rat \<Rightarrow> rat option \<Rightarrow> int option" where
  "calculate_sell_line_2 SELL_LEVEL_2_GAP avg_buy_price =
     (case avg_buy_price of
        None \<Rightarrow> None
      | Some a \<Rightarrow> Some (floor_tick (a * (1 + SELL_LEVEL_2_GAP / 100))))"

definition calculate_sell_line_3 :: "rat \<Rightarrow> rat option \<Rightarrow> int option" where
  "calculate_sell_line_3 SELL_LEVEL_3_GAP avg_buy_price =
     (case avg_buy_price of
        None \<Rightarrow> None
      | Some a \<Rightarrow> Some (floor_tick (a * (1 + SELL_LEVEL_3_GAP / 100))))"

section \<open>Real-time alert check and its alert history\<close>

text \<open>
  The alert history is the dictionary \<open>{"date": ..., "alerts": {ticker: {key: bool}}}\<close>.
  The source reads \<open>"alerts"\<close> with a default, so the key may be absent.
\<close>

record history =
  h_date :: string
  h_alerts :: "(string \<rightharpoonup> (string \<rightharpoonup> bool)) option"

text \<open>
  One call of \<open>send_realtime_alert\<close>, by its arguments. The Korean label
  \<open>alert_type\<close> is fixed by the alert key and is not repeated; \<open>a_low_price\<close> is
  \<open>None\<close> where the call passes no \<open>low_price\<close>; \<open>a_sell_prices\<close> says whether the
  call attaches the sell prices read from the workbook.
\<close>

record alert =
  a_key :: string
  a_stock_name :: string
  a_ticker :: string
  a_current_price :: rat
  a_low_price :: "rat option"
  a_target_price :: rat
  a_distance_pct :: rat
  a_sell_prices :: bool

text \<open>
  What one invocation does: the value it returns, the history it leaves, the alerts it
  sent and the histories it handed to \<open>save_alert_history\<close>, in order.
\<close>

record outcome =
  returned :: bool
  history_after :: history
  sent :: "alert list"
  saved :: "history list"

datatype error = TypeError

text \<open>
  \<open>calculate_low_price_distance\<close> (the second definition in the module, which replaces
  the first):
  \<^verbatim>\<open>
  if low_price is None or target_price is None or target_price == 0: return None
  distance_pct = ((low_price - target_price) / target_price) * 100
  if abs(distance_pct) < 1e-10: return 0.0
  return distance_pct
  \<close>
\<close>

definition calculate_low_price_distance :: "rat option \<Rightarrow> rat option \<Rightarrow> rat option" where
  "calculate_low_price_distance low_price target_price =
     (case (low_price, target_price) of
        (Some l, Some t) \<Rightarrow>
          if t = 0 then None
          else (let distance_pct = ((l - t) / t) * 100
                in if \<bar>distance_pct\<bar> < 1 / 10 ^ 10 then Some 0 else Some distance_pct)
      | _ \<Rightarrow> None)"

text \<open>\<open>ticker_alerts.get(key, False)\<close>.\<close>

definition get_flag :: "(string \<rightharpoonup> bool) \<Rightarrow> string \<Rightarrow> bool" where
  "get_flag ticker_alerts key = (case ticker_alerts key of None \<Rightarrow> False | Some b \<Rightarrow> b)"

text \<open>
  \<open>alerts = history.get("alerts", {})\<close> and \<open>ticker_alerts = alerts.get(ticker, {})\<close>.
\<close>

definition alerts_of :: "history \<Rightarrow> (string \<rightharpoonup> (string \<rightharpoonup> bool))" where
  "alerts_of history = (case h_alerts history of None \<Rightarrow> Map.empty | Some m \<Rightarrow> m)"

definition ticker_alerts_of :: "history \<Rightarrow> string \<Rightarrow> (string \<rightharpoonup> bool)" where
  "ticker_alerts_of history ticker =
     (case alerts_of history ticker of None \<Rightarrow> Map.empty | Some ta \<Rightarrow> ta)"

text \<open>
  The marking that every firing branch performs:
  \<^verbatim>\<open>
  ticker_alerts[alert_key] = True
  alerts[ticker] = ticker_alerts
  history["alerts"] = alerts
  \<close>
\<close>

definition mark_fired :: "string \<Rightarrow> string \<Rightarrow> history \<Rightarrow> history" where
  "mark_fired ticker alert_key history =
     history\<lparr>h_alerts :=
       Some ((alerts_of history)(ticker \<mapsto> (ticker_alerts_of history ticker)(alert_key \<mapsto> True)))\<rparr>"

text \<open>
  A firing branch: send the alert, mark the key, save the history, \<open>return True\<close>.
\<close>

definition fire :: "history \<Rightarrow> string \<Rightarrow> string \<Rightarrow> alert \<Rightarrow> outcome" where
  "fire history ticker alert_key a =
     (let history' = mark_fired ticker alert_key history
      in \<lparr>returned = True, history_after = history', sent = [a], saved = [history']\<rparr>)"

text \<open>Falling through to the final \<open>return False\<close>: nothing sent, marked or saved.\<close>

definition no_alert :: "history \<Rightarrow> outcome" where
  "no_alert history = \<lparr>returned = False, history_after = history, sent = [], saved = []\<rparr>"

text \<open>
  The block that \<open>check_simplified_alert\<close> repeats for the buy lines 1, 2 and 3. The
  three copies differ in the digit \<open>n\<close> inside the keys, in the buy line they measure
  against, and in that the proximity alerts of lines 2 and 3 pass \<open>low_price\<close> to the
  sender while those of line 1 do not (\<open>pass_low\<close>). Comparing a \<open>None\<close> distance with
  0 raises \<open>TypeError\<close>.
  \<^verbatim>\<open>
  low_dist = calculate_low_price_distance(low_price, buyN)
  if low_dist <= 0:
      if not ticker_alerts.get("BUYN_EXECUTED", False): (fire)
  elif 0 < low_dist <= 1.0:
      if not ticker_alerts.get("READY_BUYN_1%", False): (fire)
  elif 0 < low_dist <= 3.0:
      if not ticker_alerts.get("READY_BUYN_3%", False) and
         not ticker_alerts.get("READY_BUYN_1%", False): (fire)
  elif 0 < low_dist <= 5.0:
      if (not ticker_alerts.get("READY_BUYN_5%", False) and
          not ticker_alerts.get("READY_BUYN_1%", False) and
          not ticker_alerts.get("READY_BUYN_3%", False)): (fire)
  \<close>
\<close>

definition check_tier ::
  "string \<Rightarrow> bool \<Rightarrow> string \<Rightarrow> string \<Rightarrow> rat \<Rightarrow> rat option \<Rightarrow> rat \<Rightarrow> history \<Rightarrow> error + outcome"
where
  "check_tier n pass_low ticker stock_name current_price low_price target history =
     (let ticker_alerts = ticker_alerts_of history ticker
      in case calculate_low_price_distance low_price (Some target) of
           None \<Rightarrow> Inl TypeError
         | Some low_dist \<Rightarrow>
             (let msg = (\<lambda>key with_low with_sell.
                    \<lparr>a_key = key, a_stock_name = stock_name, a_ticker = ticker,
                     a_current_price = current_price,
                     a_low_price = (if with_low then low_price else None),
                     a_target_price = target, a_distance_pct = low_dist,
                     a_sell_prices = with_sell\<rparr>)
              in if low_dist \<le> 0 then
                   (let alert_key = ''BUY'' @ n @ ''_EXECUTED''
                    in if \<not> get_flag ticker_alerts alert_key
                       then Inr (fire history ticker alert_key (msg alert_key False True))
                       else Inr (no_alert history))
                 else if 0 < low_dist \<and> low_dist \<le> 1 then
                   (let alert_key = ''READY_BUY'' @ n @ ''_1%''
                    in if \<not> get_flag ticker_alerts alert_key
                       then Inr (fire history ticker alert_key (msg alert_key pass_low False))
                       else Inr (no_alert history))
                 else if 0 < low_dist \<and> low_dist \<le> 3 then
                   (let alert_key = ''READY_BUY'' @ n @ ''_3%''
                    in if \<not> get_flag ticker_alerts alert_key
                          \<and> \<not> get_flag ticker_alerts (''READY_BUY'' @ n @ ''_1%'')
                       then Inr (fire history ticker alert_key (msg alert_key pass_low False))
                       else Inr (no_alert history))
                 else if 0 < low_dist \<and> low_dist \<le> 5 then
                   (let alert_key = ''READY_BUY'' @ n @ ''_5%''
                    in if \<not> get_flag ticker_alerts alert_key
                          \<and> \<not> get_flag ticker_alerts (''READY_BUY'' @ n @ ''_1%'')
                          \<and> \<not> get_flag ticker_alerts (''READY_BUY'' @ n @ ''_3%'')
                       then Inr (fire history ticker alert_key (msg alert_key pass_low False))
                       else Inr (no_alert history))
                 else Inr (no_alert history)))"

text \<open>
  \<open>check_simplified_alert\<close>: no buy line may be \<open>None\<close>; then the block of the buy
  line that the buy status selects; any other status returns \<open>False\<close>.
\<close>

definition check_simplified_alert ::
  "string \<Rightarrow> string \<Rightarrow> rat \<Rightarrow> rat option \<Rightarrow> string \<Rightarrow> rat option \<Rightarrow> rat option \<Rightarrow> rat option
     \<Rightarrow> history \<Rightarrow> error + outcome"
where
  "check_simplified_alert ticker stock_name current_price low_price buy_status buy1 buy2 buy3 history =
     (case (buy1, buy2, buy3) of
        (Some b1, Some b2, Some b3) \<Rightarrow>
          if buy_status = ''NONE'' then
            check_tier ''1'' False ticker stock_name current_price low_price b1 history
          else if buy_status = ''BOUGHT_1'' then
            check_tier ''2'' True ticker stock_name current_price low_price b2 history
          else if buy_status = ''BOUGHT_2'' then
            check_tier ''3'' True ticker stock_name current_price low_price b3 history
          else Inr (no_alert history)
      | _ \<Rightarrow> Inr (no_alert history))"

section \<open>Example inputs\<close>

text \<open>
  Twenty closes, oldest first, each different from the others: their sum is 21900, the
  oldest is 1000 and the latest is 1190.
\<close>

definition example_closes :: "rat list" where
  "example_closes =
     [1000, 1010, 1020, 1030, 1040, 1050, 1060, 1070, 1080, 1090,
      1100, 1110, 1120, 1130, 1140, 1150, 1160, 1170, 1180, 1190]"

text \<open>
  The alert history at the start of the epoch \<open>2025-10-14\<close>, and the same history
  after the 1 percent key, or the 5 percent key, of buy line 1 has fired for
  instrument \<open>X\<close>.
\<close>

definition example_history :: history where
  "example_history = \<lparr>h_date = ''2025-10-14'', h_alerts = Some Map.empty\<rparr>"

definition example_history_1pct :: history where
  "example_history_1pct = mark_fired ''X'' ''READY_BUY1_1%'' example_history"


text \<open>
  The alert sent when the low 1005 of instrument \<open>X\<close> comes within 1 percent of its
  buy line 1000.
\<close>

definition example_alert :: alert where
  "example_alert =
     \<lparr>a_key = ''READY_BUY1_1%'', a_stock_name = ''X'', a_ticker = ''X'',
      a_current_price = 1010, a_low_price = None, a_target_price = 1000,
      a_distance_pct = 1 / 2, a_sell_prices = False\<rparr>"

section \<open>Facts about the tick table and tick rounding\<close>














section \<open>The solver returns a verified contact price\<close>












section \<open>The predictor of the signal system and the shared solver\<close>






section \<open>The loop has no iteration bound\<close>




section \<open>Exact on-tick prices\<close>




section \<open>The sums and sell lines of \<open>analyze_stock\<close>\<close>

lemma sums_always_equal:
  "analyze_stock_sums closes = Some r \<Longrightarrow> S19_today r = S19_next r"
  by (auto simp: analyze_stock_sums_def Let_def split: if_splits option.splits)

text \<open>
  Claim C3 says that the engine carries two distinct 19-close sums, one for today and
  one for the next session. In the code both are \<open>S20_today\<close> less the same close
  \<open>df_chart.iloc[-20]\<close>: on the example series both are \<open>21900 - 1000 = 20900\<close>.
\<close>

theorem two_sums_conflated:
  "analyze_stock_sums example_closes = Some \<lparr>S19_today = 20900, S19_next = 20900\<rparr>"
  by code_simp

text \<open>
  Claim C4 says that each sell line used by the state machine is the percentage gain
  price rounded down to its tick. With an average entry price of 2005 (tick size 5)
  \<open>analyze_stock\<close> uses 2065.15, 2105.25 and 2145.35, which are not on-tick; the
  helpers \<open>calculate_sell_line_1\<close>, \<open>_2\<close>, \<open>_3\<close> with the gaps 3, 5 and 7 give
  2065, 2105 and 2145.
\<close>

theorem sell_lines_not_quantized:
  "analyze_stock_sell_lines ''BOUGHT_1'' (Some 2005) = Some (41303 / 20, 8421 / 4, 42907 / 20)
   \<and> calculate_sell_line_1 3 (Some 2005) = Some 2065
   \<and> calculate_sell_line_2 5 (Some 2005) = Some 2105
   \<and> calculate_sell_line_3 7 (Some 2005) = Some 2145"
  by code_simp

section \<open>Alert de-duplication\<close>

lemma ticker_alerts_mark:
  "ticker_alerts_of (mark_fired t k h) t = (ticker_alerts_of h t)(k \<mapsto> True)"
  by (simp add: ticker_alerts_of_def mark_fired_def alerts_of_def)

lemma get_flag_mark: "get_flag (ticker_alerts_of (mark_fired t k h) t) k"
  by (simp add: ticker_alerts_mark get_flag_def)

lemma distance_cases:
  fixes d :: rat
  obtains (reached) "d \<le> 0" | (near1) "0 < d" "d \<le> 1" | (near3) "1 < d" "d \<le> 3"
    | (near5) "3 < d" "d \<le> 5" | (far) "5 < d"
  by linarith

lemma check_tier_outcomes:
  assumes "check_tier n pl t nm cp lp tg h = Inr out"
  shows "out = no_alert h
       \<or> (\<exists>k a. out = fire h t k a \<and> \<not> get_flag (ticker_alerts_of h t) k)"
proof (cases "calculate_low_price_distance lp (Some tg)")
  case None
  with assms show ?thesis by (simp add: check_tier_def)
next
  case (Some d)
  show ?thesis
  proof (cases d rule: distance_cases)
    case reached
    with assms Some show ?thesis by (simp add: check_tier_def Let_def split: if_splits) blast+
  next
    case near1
    with assms Some show ?thesis by (simp add: check_tier_def Let_def split: if_splits) blast+
  next
    case near3
    with assms Some show ?thesis by (simp add: check_tier_def Let_def split: if_splits) blast+
  next
    case near5
    with assms Some show ?thesis by (simp add: check_tier_def Let_def split: if_splits) blast+
  next
    case far
    with assms Some show ?thesis by (simp add: check_tier_def Let_def)
  qed
qed

lemma check_tier_again:
  assumes "check_tier n pl t nm cp lp tg h = Inr out"
  shows "check_tier n pl t nm cp lp tg (history_after out) = Inr (no_alert (history_after out))"
proof (cases "calculate_low_price_distance lp (Some tg)")
  case None
  with assms show ?thesis by (simp add: check_tier_def)
next
  case (Some d)
  show ?thesis
  proof (cases d rule: distance_cases)
    case reached
    with assms Some show ?thesis
      by (auto simp: check_tier_def Let_def fire_def no_alert_def get_flag_mark split: if_splits)
  next
    case near1
    with assms Some show ?thesis
      by (auto simp: check_tier_def Let_def fire_def no_alert_def get_flag_mark split: if_splits)
  next
    case near3
    with assms Some show ?thesis
      by (auto simp: check_tier_def Let_def fire_def no_alert_def get_flag_mark split: if_splits)
  next
    case near5
    with assms Some show ?thesis
      by (auto simp: check_tier_def Let_def fire_def no_alert_def get_flag_mark split: if_splits)
  next
    case far
    with assms Some show ?thesis by (simp add: check_tier_def Let_def no_alert_def)
  qed
qed

lemma check_simplified_alert_cases:
  obtains (quiet) "\<And>h. check_simplified_alert t nm cp lp st b1 b2 b3 h = Inr (no_alert h)"
  | (tier) n pl tg where
      "\<And>h. check_simplified_alert t nm cp lp st b1 b2 b3 h = check_tier n pl t nm cp lp tg h"
proof (cases "\<exists>x1 x2 x3. b1 = Some x1 \<and> b2 = Some x2 \<and> b3 = Some x3")
  case False
  hence "\<And>h. check_simplified_alert t nm cp lp st b1 b2 b3 h = Inr (no_alert h)"
    by (cases b1; cases b2; cases b3) (simp_all add: check_simplified_alert_def)
  thus ?thesis by (rule quiet)
next
  case True
  then obtain x1 x2 x3 where b: "b1 = Some x1" "b2 = Some x2" "b3 = Some x3" by blast
  consider "st = ''NONE''" | "st \<noteq> ''NONE''" "st = ''BOUGHT_1''"
    | "st \<noteq> ''NONE''" "st \<noteq> ''BOUGHT_1''" "st = ''BOUGHT_2''"
    | "st \<noteq> ''NONE''" "st \<noteq> ''BOUGHT_1''" "st \<noteq> ''BOUGHT_2''" by blast
  then show ?thesis
  proof cases
    case 1
    show ?thesis by (rule tier[of "''1''" False x1]) (simp add: check_simplified_alert_def b 1)
  next
    case 2
    show ?thesis by (rule tier[of "''2''" True x2]) (simp add: check_simplified_alert_def b 2)
  next
    case 3
    show ?thesis by (rule tier[of "''3''" True x3]) (simp add: check_simplified_alert_def b 3)
  next
    case 4
    show ?thesis by (rule quiet) (simp add: check_simplified_alert_def b 4)
  qed
qed

lemma check_outcomes:
  assumes "check_simplified_alert t nm cp lp st b1 b2 b3 h = Inr out"
  shows "out = no_alert h
       \<or> (\<exists>k a. out = fire h t k a \<and> \<not> get_flag (ticker_alerts_of h t) k)"
proof (cases t nm cp lp st b1 b2 b3 rule: check_simplified_alert_cases)
  case quiet
  with assms show ?thesis by simp
next
  case (tier n pl tg)
  with assms have "check_tier n pl t nm cp lp tg h = Inr out" by simp
  then show ?thesis by (rule check_tier_outcomes)
qed

text \<open>
  Claim C8. If an evaluation of an instrument returns normally, a second evaluation
  with the same inputs on the history the first one left (same epoch key) returns
  \<open>False\<close>, sends nothing, saves nothing and leaves the history as it is: a condition
  fires at most once.
\<close>

theorem should_fire_idempotent:
  assumes "check_simplified_alert t nm cp lp st b1 b2 b3 h = Inr out"
  shows "check_simplified_alert t nm cp lp st b1 b2 b3 (history_after out)
           = Inr (no_alert (history_after out))"
proof (cases t nm cp lp st b1 b2 b3 rule: check_simplified_alert_cases)
  case quiet
  then show ?thesis by simp
next
  case (tier n pl tg)
  with assms have "check_tier n pl t nm cp lp tg h = Inr out" by simp
  from check_tier_again[OF this] tier show ?thesis by simp
qed

lemma ex_first:
  "check_simplified_alert ''X'' ''X'' 1010 (Some 1005) ''NONE'' (Some 1000) (Some 901) (Some 811)
     example_history = Inr (fire example_history ''X'' ''READY_BUY1_1%'' example_alert)"
  by (simp add: check_simplified_alert_def check_tier_def calculate_low_price_distance_def
      ticker_alerts_of_def alerts_of_def get_flag_def Let_def example_history_def example_alert_def)

theorem should_fire_idempotent_witness:
  "check_simplified_alert ''X'' ''X'' 1010 (Some 1005) ''NONE'' (Some 1000) (Some 901) (Some 811)
     example_history = Inr (fire example_history ''X'' ''READY_BUY1_1%'' example_alert)
   \<and> returned (fire example_history ''X'' ''READY_BUY1_1%'' example_alert)
   \<and> history_after (fire example_history ''X'' ''READY_BUY1_1%'' example_alert) = example_history_1pct
   \<and> check_simplified_alert ''X'' ''X'' 1010 (Some 1005) ''NONE'' (Some 1000) (Some 901) (Some 811)
        example_history_1pct = Inr (no_alert example_history_1pct)"
proof -
  have h: "history_after (fire example_history ''X'' ''READY_BUY1_1%'' example_alert) = example_history_1pct"
    by (simp add: fire_def Let_def example_history_1pct_def)
  have r: "returned (fire example_history ''X'' ''READY_BUY1_1%'' example_alert)"
    by (simp add: fire_def Let_def)
  from should_fire_idempotent [OF ex_first] ex_first h r show ?thesis by simp
qed



text \<open>
  Claim C10. One invocation that returns normally sends at most one alert. If it
  returns \<open>True\<close> it has marked exactly one key, not set before, for this instrument,
  and saved the history once; if it returns \<open>False\<close> the history is unchanged and
  nothing is sent or saved.
\<close>

theorem one_alert_per_call:
  assumes "check_simplified_alert t nm cp lp st b1 b2 b3 h = Inr out"
  shows "length (sent out) \<le> 1
       \<and> (if returned out
          then (\<exists>k. \<not> get_flag (ticker_alerts_of h t) k
                   \<and> history_after out = mark_fired t k h)
               \<and> length (sent out) = 1 \<and> saved out = [history_after out]
          else history_after out = h \<and> sent out = [] \<and> saved out = [])"
proof -
  from check_outcomes[OF assms] show ?thesis
  proof
    assume "out = no_alert h"
    then show ?thesis by (simp add: no_alert_def)
  next
    assume "\<exists>k a. out = fire h t k a \<and> \<not> get_flag (ticker_alerts_of h t) k"
    then obtain k a where "out = fire h t k a" and nf: "\<not> get_flag (ticker_alerts_of h t) k" by blast
    hence o: "returned out" "history_after out = mark_fired t k h" "sent out = [a]"
      "saved out = [mark_fired t k h]" by (simp_all add: fire_def Let_def)
    show ?thesis using nf o by auto
  qed
qed

theorem one_alert_per_call_witness:
  "check_simplified_alert ''X'' ''X'' 1010 (Some 1005) ''NONE'' (Some 1000) (Some 901) (Some 811)
     example_history = Inr (fire example_history ''X'' ''READY_BUY1_1%'' example_alert)
   \<and> length (sent (fire example_history ''X'' ''READY_BUY1_1%'' example_alert)) = 1
   \<and> (\<exists>k. \<not> get_flag (ticker_alerts_of example_history ''X'') k
          \<and> history_after (fire example_history ''X'' ''READY_BUY1_1%'' example_alert)
              = mark_fired ''X'' k example_history)
   \<and> saved (fire example_history ''X'' ''READY_BUY1_1%'' example_alert) = [example_history_1pct]"
proof -
  have r: "returned (fire example_history ''X'' ''READY_BUY1_1%'' example_alert)"
    by (simp add: fire_def Let_def)
  have h: "history_after (fire example_history ''X'' ''READY_BUY1_1%'' example_alert) = example_history_1pct"
    by (simp add: fire_def Let_def example_history_1pct_def)
  from one_alert_per_call [OF ex_first] r h ex_first show ?thesis by simp
qed

end
